theory Spec2Isabelle
  imports Complex_Main
begin

section \<open>Floating-point values\<close>

text \<open>
  The notebook computes with NumPy/pandas \<open>float64\<close> values.  They are modelled as exact
  reals extended with the three special values of IEEE arithmetic that decide the
  behaviour of the pipeline at its edges: \<open>+inf\<close>, \<open>-inf\<close> and \<open>nan\<close>.
  Finite operations are exact, except in the two dot products of the aggregator, whose
  float64 rounding is a parameter of the model (see there); there is a single zero, read
  as \<open>+0.0\<close>.  NumPy never raises on a floating-point operation: division by zero
  and the square root of a negative number return \<open>inf\<close>/\<open>nan\<close> (with a warning).
\<close>

datatype fl = Fin real | PInf | NInf | NaN

fun fneg :: "fl \<Rightarrow> fl" where
  "fneg (Fin a) = Fin (- a)"
| "fneg PInf = NInf"
| "fneg NInf = PInf"
| "fneg NaN = NaN"

fun fadd :: "fl \<Rightarrow> fl \<Rightarrow> fl" where
  "fadd (Fin a) (Fin b) = Fin (a + b)"
| "fadd NaN _ = NaN"
| "fadd _ NaN = NaN"
| "fadd PInf NInf = NaN"
| "fadd NInf PInf = NaN"
| "fadd PInf _ = PInf"
| "fadd _ PInf = PInf"
| "fadd NInf _ = NInf"
| "fadd _ NInf = NInf"

definition fsub :: "fl \<Rightarrow> fl \<Rightarrow> fl" where
  "fsub x y = fadd x (fneg y)"

fun fmul :: "fl \<Rightarrow> fl \<Rightarrow> fl" where
  "fmul (Fin a) (Fin b) = Fin (a * b)"
| "fmul NaN _ = NaN"
| "fmul _ NaN = NaN"
| "fmul (Fin a) PInf = (if a = 0 then NaN else if 0 < a then PInf else NInf)"
| "fmul (Fin a) NInf = (if a = 0 then NaN else if 0 < a then NInf else PInf)"
| "fmul PInf (Fin b) = (if b = 0 then NaN else if 0 < b then PInf else NInf)"
| "fmul NInf (Fin b) = (if b = 0 then NaN else if 0 < b then NInf else PInf)"
| "fmul PInf PInf = PInf"
| "fmul PInf NInf = NInf"
| "fmul NInf PInf = NInf"
| "fmul NInf NInf = PInf"

fun fdiv :: "fl \<Rightarrow> fl \<Rightarrow> fl" where
  "fdiv (Fin a) (Fin b) =
     (if b = 0 then (if a = 0 then NaN else if 0 < a then PInf else NInf)
      else Fin (a / b))"
| "fdiv NaN _ = NaN"
| "fdiv _ NaN = NaN"
| "fdiv (Fin a) PInf = Fin 0"
| "fdiv (Fin a) NInf = Fin 0"
| "fdiv PInf (Fin b) = (if 0 \<le> b then PInf else NInf)"
| "fdiv NInf (Fin b) = (if 0 \<le> b then NInf else PInf)"
| "fdiv PInf PInf = NaN"
| "fdiv PInf NInf = NaN"
| "fdiv NInf PInf = NaN"
| "fdiv NInf NInf = NaN"

text \<open>\<open>np.sqrt\<close>: \<open>nan\<close> on a negative argument, never an exception.\<close>

fun fsqrt :: "fl \<Rightarrow> fl" where
  "fsqrt (Fin a) = (if a < 0 then NaN else Fin (sqrt a))"
| "fsqrt PInf = PInf"
| "fsqrt NInf = NaN"
| "fsqrt NaN = NaN"

text \<open>Comparisons with a float literal; every comparison with \<open>nan\<close> is false.\<close>

fun fgt :: "fl \<Rightarrow> real \<Rightarrow> bool" where
  "fgt (Fin a) c = (c < a)"
| "fgt PInf c = True"
| "fgt NInf c = False"
| "fgt NaN c = False"

fun flt :: "fl \<Rightarrow> real \<Rightarrow> bool" where
  "flt (Fin a) c = (a < c)"
| "flt PInf c = False"
| "flt NInf c = True"
| "flt NaN c = False"

fun feq :: "fl \<Rightarrow> fl \<Rightarrow> bool" where
  "feq NaN _ = False"
| "feq _ NaN = False"
| "feq x y = (x = y)"

text \<open>Sum of a sequence (\<open>np.sum\<close>, and the accumulation inside \<open>np.dot\<close>).\<close>

primrec fsum :: "fl list \<Rightarrow> fl" where
  "fsum [] = Fin 0"
| "fsum (x # xs) = fadd x (fsum xs)"

text \<open>
  A float64 evaluation returns the exact value rounded.  \<open>fround rnd\<close> applies a
  rounding \<open>rnd\<close> to a finite value and leaves \<open>inf\<close> and \<open>nan\<close> as they are.
\<close>

fun fround :: "(real \<Rightarrow> real) \<Rightarrow> fl \<Rightarrow> fl" where
  "fround rnd (Fin a) = Fin (rnd a)"
| "fround rnd PInf = PInf"
| "fround rnd NInf = NInf"
| "fround rnd NaN = NaN"

section \<open>Errors\<close>

text \<open>
  The only exception the pipeline itself can raise is the shape check of the two
  \<open>dot\<close> products (pandas: \<open>Exception("Dot product shape mismatch")\<close>, NumPy:
  \<open>ValueError\<close>); it is named \<open>DimensionMismatchError\<close> as in the error taxonomy
  of the specification, whose other three errors are listed for reference: no cell of
  the notebook raises them.
\<close>

datatype error =
  InsufficientDataError | InvalidPriceError | DimensionMismatchError | InvalidParameterError

section \<open>Step 3: compute portfolio statistics\<close>

text \<open>
  A pandas \<open>DataFrame\<close> of floats is modelled by the list of its columns, one per
  asset in column order, each column the list of its values in row (date) order.  A
  missing value is \<open>nan\<close>.  All columns of a \<open>DataFrame\<close> have the same length.
\<close>

type_synonym series = "fl list"
type_synonym frame = "series list"

subsection \<open>\<open>returns = data.pct_change()\<close>\<close>

text \<open>
  \<open>DataFrame.pct_change()\<close> with its defaults in the pandas of the notebook
  (\<open>periods=1, fill_method='pad'\<close>):
  \<^verbatim>\<open>
  data = self.fillna(method=fill_method, axis=axis, limit=limit)
  rs = data / data.shift(periods=periods, freq=freq, axis=axis) - 1
  \<close>
  \<open>fillna(method='pad')\<close> replaces a missing value by the last value before it in its
  column, if there is one; \<open>shift(1)\<close> moves each column down by one row and puts
  \<open>nan\<close> in the first row.  The result has the rows of the input.
\<close>

fun pad :: "fl \<Rightarrow> series \<Rightarrow> series" where
  "pad prev [] = []"
| "pad prev (x # xs) = (if x = NaN then prev # pad prev xs else x # pad x xs)"

definition fillna_pad :: "series \<Rightarrow> series" where
  "fillna_pad col = pad NaN col"

definition shift :: "series \<Rightarrow> series" where
  "shift col = (if col = [] then [] else NaN # butlast col)"

definition pct_change_col :: "series \<Rightarrow> series" where
  "pct_change_col col =
     (let data = fillna_pad col
      in map2 (\<lambda>x y. fsub (fdiv x y) (Fin 1)) data (shift data))"

definition pct_change :: "frame \<Rightarrow> frame" where
  "pct_change df = map pct_change_col df"

definition returns :: "frame \<Rightarrow> frame" where
  "returns data = pct_change data"

text \<open>
  The return series builder of the specification is this one cell.  It checks nothing and
  raises nothing: the result is always a frame.
\<close>

definition buildReturns :: "frame \<Rightarrow> error + frame" where
  "buildReturns prices = Inr (returns prices)"

subsection \<open>\<open>cov_matrix = returns.cov()\<close>\<close>

text \<open>
  \<open>DataFrame.cov()\<close> (\<open>min_periods=None, ddof=1\<close>) on a frame with a missing value
  (every result of \<open>pct_change\<close> has one, in its first row) is
  \<open>libalgos.nancorr(mat, cov=True)\<close>: for each pair of columns, the covariance over the
  rows where both values are finite (\<open>mask = np.isfinite(mat)\<close>), with divisor
  \<open>nobs - 1\<close>; \<open>nan\<close> when there is no such row or the divisor is zero.  The rows
  that take part hold finite values only, so the arithmetic is that of the reals.  (On a
  frame without a missing value pandas calls \<open>np.cov\<close>, which computes the same
  numbers from finite values.)
\<close>

fun finite_pairs :: "series \<Rightarrow> series \<Rightarrow> (real \<times> real) list" where
  "finite_pairs (Fin vx # xs) (Fin vy # ys) = (vx, vy) # finite_pairs xs ys"
| "finite_pairs (_ # xs) (_ # ys) = finite_pairs xs ys"
| "finite_pairs _ _ = []"

definition nancov :: "series \<Rightarrow> series \<Rightarrow> fl" where
  "nancov xcol ycol =
     (let ps = finite_pairs xcol ycol;
          nobs = length ps
      in if nobs < 1 then NaN
         else
           let meanx = sum_list (map fst ps) / real nobs;
               meany = sum_list (map snd ps) / real nobs;
               covxy = sum_list (map (\<lambda>(vx, vy). (vx - meanx) * (vy - meany)) ps);
               divisor = real nobs - 1
           in if divisor \<noteq> 0 then Fin (covxy / divisor) else NaN)"

text \<open>The matrix as the list of its rows: row \<open>i\<close>, column \<open>j\<close> is \<open>cov(i, j)\<close>.\<close>

definition cov :: "frame \<Rightarrow> fl list list" where
  "cov df = map (\<lambda>xcol. map (\<lambda>ycol. nancov xcol ycol) df) df"

definition cov_matrix :: "frame \<Rightarrow> fl list list" where
  "cov_matrix rets = cov rets"

subsection \<open>\<open>mean_returns = returns.mean()\<close>\<close>

text \<open>
  \<open>DataFrame.mean()\<close> (\<open>skipna=True\<close>), per column: the sum of the values that are
  not \<open>nan\<close> over their count; \<open>nan\<close> when the count is zero.
\<close>

definition nanmean :: "series \<Rightarrow> fl" where
  "nanmean col =
     (let vs = filter (\<lambda>v. v \<noteq> NaN) col
      in if length vs = 0 then NaN else fdiv (fsum vs) (Fin (real (length vs))))"

definition mean_returns :: "frame \<Rightarrow> fl list" where
  "mean_returns rets = map nanmean rets"

subsection \<open>\<open>port_mean = mean_returns.dot(weights)\<close>\<close>

text \<open>
  \<open>Series.dot\<close> with an array: raises when the lengths differ, else \<open>np.dot\<close> of the
  two vectors.

  \<open>np.dot\<close> evaluates the sum of the products in float64.  Where that sum cancels, the
  rounding decides the sign of the result, and under \<open>np.sqrt\<close> the sign decides
  between a number and \<open>nan\<close>.  The result is therefore the exact sum of products
  rounded by \<open>rnd\<close>, a parameter that stands for the float64 rounding of the evaluation
  (that of the operands included).  Nothing is assumed of \<open>rnd\<close>; exact arithmetic is
  \<open>rnd = (\<lambda>x. x)\<close>.
\<close>

definition dot :: "(real \<Rightarrow> real) \<Rightarrow> fl list \<Rightarrow> fl list \<Rightarrow> error + fl" where
  "dot rnd xs ys =
     (if length xs \<noteq> length ys then Inl DimensionMismatchError
      else Inr (fround rnd (fsum (map2 fmul xs ys))))"

definition port_mean :: "(real \<Rightarrow> real) \<Rightarrow> fl list \<Rightarrow> fl list \<Rightarrow> error + fl" where
  "port_mean rnd mean_rets weights = dot rnd mean_rets weights"

subsection \<open>\<open>port_stdev = np.sqrt(weights.T.dot(cov_matrix).dot(weights))\<close>\<close>

text \<open>
  \<open>weights.T\<close> is \<open>weights\<close> (a one-dimensional array).  \<open>weights.dot(cov_matrix)\<close>
  is the vector-matrix product: it raises unless the matrix has as many rows as the vector
  has entries; entry \<open>j\<close> of the result is the sum over the rows \<open>i\<close> of
  \<open>weights[i] * cov_matrix[i][j]\<close>, evaluated in float64 as in \<open>dot\<close>.
\<close>

definition ncols :: "fl list list \<Rightarrow> nat" where
  "ncols m = (case m of [] \<Rightarrow> 0 | row # _ \<Rightarrow> length row)"

definition vecmat :: "(real \<Rightarrow> real) \<Rightarrow> fl list \<Rightarrow> fl list list \<Rightarrow> error + fl list" where
  "vecmat rnd v m =
     (if length v \<noteq> length m then Inl DimensionMismatchError
      else Inr (map (\<lambda>j. fround rnd (fsum (map2 (\<lambda>vi row. fmul vi (row ! j)) v m)))
                 [0..<ncols m]))"

definition quad_form :: "(real \<Rightarrow> real) \<Rightarrow> fl list \<Rightarrow> fl list list \<Rightarrow> error + fl" where
  "quad_form rnd weights cov_m =
     (case vecmat rnd weights cov_m of
        Inl e \<Rightarrow> Inl e
      | Inr v \<Rightarrow> dot rnd v weights)"

definition port_stdev :: "(real \<Rightarrow> real) \<Rightarrow> fl list \<Rightarrow> fl list list \<Rightarrow> error + fl" where
  "port_stdev rnd weights cov_m =
     (case quad_form rnd weights cov_m of
        Inl e \<Rightarrow> Inl e
      | Inr q \<Rightarrow> Inr (fsqrt q))"

text \<open>
  The portfolio statistics aggregator of the specification: the cells of step 3 after
  \<open>returns\<close>, in their order, with the rounding \<open>rnd\<close> of the dot products.  The
  first cell that raises ends the run.
\<close>

definition aggregate :: "(real \<Rightarrow> real) \<Rightarrow> frame \<Rightarrow> fl list \<Rightarrow> error + fl \<times> fl" where
  "aggregate rnd rets weights =
     (let cov_m = cov_matrix rets;
          mean_rets = mean_returns rets
      in case port_mean rnd mean_rets weights of
           Inl e \<Rightarrow> Inl e
         | Inr pm \<Rightarrow>
             (case port_stdev rnd weights cov_m of
                Inl e \<Rightarrow> Inl e
              | Inr sd \<Rightarrow> Inr (pm, sd)))"

section \<open>Step 4: compute VaR\<close>

text \<open>
  \<open>scipy.special.ndtri\<close>, the quantile function of the standard Normal distribution,
  is the inverse of its distribution function, given here by its power series
  \<open>\<Phi>(x) = 1/2 + 1/sqrt(2 \<pi>) * (\<Sum>n. (-1)^n x^(2n+1) / (n! 2^n (2n+1)))\<close>.
  No property below depends on more than \<open>ndtri\<close> being a function of the probability.
\<close>

definition std_normal_cdf :: "real \<Rightarrow> real" where
  "std_normal_cdf x =
     1 / 2 + (1 / sqrt (2 * pi)) *
       (\<Sum>n. (- 1) ^ n * x ^ (2 * n + 1) / (fact n * 2 ^ n * real (2 * n + 1)))"

definition ndtri :: "real \<Rightarrow> real" where
  "ndtri q = (THE x. std_normal_cdf x = q)"

text \<open>
  \<open>scipy.stats.norm.ppf(q, loc, scale)\<close> (\<open>rv_continuous.ppf\<close> with the support
  \<open>(-inf, inf)\<close> of \<open>norm\<close>):
  \<^verbatim>\<open>
  cond0 = self._argcheck(*args) & (scale > 0) & (loc == loc)
  cond1 = (0 < q) & (q < 1)
  cond2 = cond0 & (q == 0)
  cond3 = cond0 & (q == 1)
  cond = cond0 & cond1
  output = np.full(shape(cond), fill_value=self.badvalue)      # nan
  place(output, cond2, _a * scale + loc)                       # _a = -inf
  place(output, cond3, _b * scale + loc)                       # _b = +inf
  place(output, cond, self._ppf(q) * scale + loc)              # _ppf = ndtri
  \<close>
  It raises nothing: outside the domain the result is \<open>nan\<close> or an infinity.
\<close>

fun ppf_std :: "fl \<Rightarrow> fl" where
  "ppf_std (Fin q) = Fin (ndtri q)"
| "ppf_std _ = NaN"

definition norm_ppf :: "fl \<Rightarrow> fl \<Rightarrow> fl \<Rightarrow> fl" where
  "norm_ppf q loc scale =
     (let cond0 = (fgt scale 0 \<and> feq loc loc);
          cond1 = (fgt q 0 \<and> flt q 1);
          cond2 = (cond0 \<and> feq q (Fin 0));
          cond3 = (cond0 \<and> feq q (Fin 1))
      in if cond0 \<and> cond1 then fadd (fmul (ppf_std q) scale) loc
         else if cond3 then fadd (fmul PInf scale) loc
         else if cond2 then fadd (fmul NInf scale) loc
         else NaN)"

text \<open>\<^verbatim>\<open>mean_investment = (1 + port_mean) * initial_investment\<close>\<close>

definition mean_investment :: "fl \<Rightarrow> fl \<Rightarrow> fl" where
  "mean_investment pmean initial_investment =
     fmul (fadd (Fin 1) pmean) initial_investment"

text \<open>\<^verbatim>\<open>investment_stdev = initial_investment * port_stdev\<close>\<close>

definition investment_stdev :: "fl \<Rightarrow> fl \<Rightarrow> fl" where
  "investment_stdev initial_investment pstdev = fmul initial_investment pstdev"

text \<open>\<^verbatim>\<open>percent_point = norm.ppf(confidence, mean_investment, investment_stdev)\<close>\<close>

definition percent_point :: "fl \<Rightarrow> fl \<Rightarrow> fl \<Rightarrow> fl" where
  "percent_point confidence mean_inv stdev_inv = norm_ppf confidence mean_inv stdev_inv"

text \<open>\<^verbatim>\<open>value_at_risk = initial_investment - percent_point\<close>\<close>

definition value_at_risk :: "fl \<Rightarrow> fl \<Rightarrow> fl" where
  "value_at_risk initial_investment pp = fsub initial_investment pp"

text \<open>
  The VaR estimator of the specification is the four cells in sequence, from the
  portfolio statistics \<open>(port_mean, port_stdev)\<close>, the investment and the confidence
  level.  No cell checks an argument or raises: the result is always a value.
\<close>

definition estimateVaR :: "fl \<times> fl \<Rightarrow> fl \<Rightarrow> fl \<Rightarrow> error + fl" where
  "estimateVaR stats initial_investment confidence =
     (let mean_inv = mean_investment (fst stats) initial_investment;
          stdev_inv = investment_stdev initial_investment (snd stats);
          pp = percent_point confidence mean_inv stdev_inv
      in Inr (value_at_risk initial_investment pp))"

section \<open>Bonus cell: scaling VaR to different time frames\<close>

text \<open>
  \<^verbatim>\<open>value_at_risks = value_at_risk * np.sqrt(range(1, 31))\<close>

  The horizon is the literal \<open>30\<close> of the cell (\<open>range(1, 31)\<close>).
  \<open>scaleToHorizon\<close> takes it as the argument \<open>horizonDays\<close>, and the one-day
  VaR \<open>value_at_risk\<close> as the argument \<open>oneStepVaR\<close>: the cell is
  \<open>scaleToHorizon value_at_risk 30\<close>.  \<open>range(1, n + 1)\<close> is empty for \<open>n < 1\<close>.
\<close>

definition scaleToHorizon :: "fl \<Rightarrow> int \<Rightarrow> fl list" where
  "scaleToHorizon oneStepVaR horizonDays =
     map (\<lambda>d. fmul oneStepVaR (fsqrt (Fin (of_int d)))) [1..horizonDays]"

definition value_at_risks :: "fl \<Rightarrow> fl list" where
  "value_at_risks oneStepVaR = scaleToHorizon oneStepVaR 30"

section \<open>The statistics as the specification words them\<close>



text \<open>
  Section 4.2: the arithmetic mean of a return sequence, and the sample covariance of two
  return sequences of \<open>n\<close> observations each, with denominator \<open>n - 1\<close>.
\<close>

definition sample_mean :: "real list \<Rightarrow> real" where
  "sample_mean xs = (\<Sum>k<length xs. xs ! k) / real (length xs)"

definition sample_cov :: "real list \<Rightarrow> real list \<Rightarrow> real" where
  "sample_cov xs ys =
     (\<Sum>k<length xs. (xs ! k - sample_mean xs) * (ys ! k - sample_mean ys)) /
       (real (length xs) - 1)"

text \<open>The sample variance of one return sequence, with the same denominator.\<close>

definition sample_var :: "real list \<Rightarrow> real" where
  "sample_var xs =
     (\<Sum>k<length xs. (xs ! k - sample_mean xs)\<^sup>2) / (real (length xs) - 1)"

text \<open>The observations of a column: its finite values, in order.\<close>

fun finite_values :: "series \<Rightarrow> real list" where
  "finite_values (Fin v # xs) = v # finite_values xs"
| "finite_values (_ # xs) = finite_values xs"
| "finite_values [] = []"



text \<open>
  The specification's reading of the quantile (section 4.3): the standard Normal quantile,
  affine-transformed by mean and standard deviation; at standard deviation zero it is the
  mean.
\<close>

definition normal_quantile :: "real \<Rightarrow> real \<Rightarrow> real \<Rightarrow> real" where
  "normal_quantile c mu sigma = mu + sigma * ndtri c"

section \<open>Properties of the arithmetic and of the list operations\<close>

lemma fdiv_NaN_right: "fdiv x NaN = NaN"
  by (cases x) simp_all



lemma sum_list_nth: "sum_list xs = (\<Sum>k<length xs. xs ! k)"
  by (simp add: sum_list_sum_nth atLeast0LessThan)

section \<open>The return series builder\<close>

lemma pad_no_nan: "NaN \<notin> set xs \<Longrightarrow> pad prev xs = xs"
  by (induction xs arbitrary: prev) auto

lemma length_pad: "length (pad prev xs) = length xs"
  by (induction xs arbitrary: prev) auto

lemma length_shift: "length (shift xs) = length xs"
  by (simp add: shift_def)

lemma length_pct_change_col: "length (pct_change_col col) = length col"
  by (simp add: pct_change_col_def Let_def fillna_pad_def length_pad length_shift)

lemma pct_change_col_short: "length col < 2 \<Longrightarrow> pct_change_col col = replicate (length col) NaN"
proof (cases col)
  case Nil
  then show ?thesis by (simp add: pct_change_col_def fillna_pad_def shift_def)
next
  case (Cons x xs)
  assume "length col < 2"
  with Cons have "xs = []" by simp
  with Cons show ?thesis
    by (cases x) (simp_all add: pct_change_col_def fillna_pad_def shift_def fsub_def)
qed

lemma pct_change_col_nth:
  assumes "NaN \<notin> set col" and "t < length col"
  shows "pct_change_col col ! t =
           (if t = 0 then NaN else fsub (fdiv (col ! t) (col ! (t - 1))) (Fin 1))"
proof -
  have data: "fillna_pad col = col"
    using assms(1) by (simp add: fillna_pad_def pad_no_nan)
  have ne: "col \<noteq> []"
    using assms(2) by auto
  have sh: "shift col ! t = (if t = 0 then NaN else col ! (t - 1))"
    using assms(2) ne by (cases t) (simp_all add: shift_def nth_butlast)
  have "pct_change_col col ! t = fsub (fdiv (col ! t) (shift col ! t)) (Fin 1)"
    using assms(2) by (simp add: pct_change_col_def data length_shift)
  with sh show ?thesis
    by (simp add: fdiv_NaN_right fsub_def)
qed



lemma NaN_notin_map_Fin: "NaN \<notin> set (map Fin xs)"
  by auto

text \<open>
  Claim C2, as stated, fails on the length: from two prices the code returns two entries,
  the first one undefined, not one entry.
\<close>

theorem buildReturns_length_counterexample:
  "buildReturns [[Fin 100, Fin 110]] = Inr [[NaN, Fin (1 / 10)]] \<and>
   length [NaN, Fin (1 / 10)] \<noteq> length [Fin 100, Fin (110::real)] - 1"
  by (simp add: buildReturns_def returns_def pct_change_def pct_change_col_def
      fillna_pad_def shift_def fsub_def)

text \<open>
  Claim C2, amended.  For every price table whose per-asset sequences all have length
  \<open>L \<ge> 2\<close> and hold positive finite prices only, \<open>buildReturns\<close> returns for each
  asset a sequence of length exactly \<open>L\<close> (the first observation is kept, as an
  undefined entry): entry \<open>0\<close> is \<open>nan\<close> and entry \<open>t\<close> is
  \<open>price[t] / price[t-1] - 1\<close> for every \<open>t\<close> from \<open>1\<close> to \<open>L - 1\<close>.
\<close>

theorem buildReturns_keeps_first_row:
  assumes "\<forall>col \<in> set prices. length col = L \<and> (\<forall>p \<in> set col. 0 < p)" and "2 \<le> L"
  shows "\<exists>rs. buildReturns (map (map Fin) prices) = Inr rs \<and>
           length rs = length prices \<and>
           (\<forall>i. i < length prices \<longrightarrow>
              length (rs ! i) = L \<and> rs ! i ! 0 = NaN \<and>
              (\<forall>t. 1 \<le> t \<and> t < L \<longrightarrow>
                 rs ! i ! t = Fin (prices ! i ! t / prices ! i ! (t - 1) - 1)))"
proof -
  let ?rs = "returns (map (map Fin) prices)"
  have len: "length ?rs = length prices"
    by (simp add: returns_def pct_change_def)
  have row: "length (?rs ! i) = L \<and> ?rs ! i ! 0 = NaN \<and>
      (\<forall>t. 1 \<le> t \<and> t < L \<longrightarrow> ?rs ! i ! t = Fin (prices ! i ! t / prices ! i ! (t - 1) - 1))"
    if i: "i < length prices" for i
  proof -
    let ?col = "prices ! i"
    from i have mem: "?col \<in> set prices" by simp
    with assms(1) have L: "length ?col = L" and pos: "\<forall>p \<in> set ?col. 0 < p"
      by blast+
    have r: "?rs ! i = pct_change_col (map Fin ?col)"
      using i by (simp add: returns_def pct_change_def)
    have l: "length (?rs ! i) = L"
      by (simp add: r length_pct_change_col L)
    have "0 < length (map Fin ?col)"
      using L assms(2) by simp
    then have z: "?rs ! i ! 0 = NaN"
      by (simp add: r pct_change_col_nth [OF NaN_notin_map_Fin])
    have e: "?rs ! i ! t = Fin (?col ! t / ?col ! (t - 1) - 1)" if t: "1 \<le> t \<and> t < L" for t
    proof -
      from t L have tl: "t < length ?col" "t - 1 < length ?col" "t \<noteq> 0"
        by arith+
      from tl(2) have "?col ! (t - 1) \<in> set ?col" by (rule nth_mem)
      with pos have nz: "?col ! (t - 1) \<noteq> 0" by fastforce
      have m: "map Fin ?col ! t = Fin (?col ! t)" "map Fin ?col ! (t - 1) = Fin (?col ! (t - 1))"
        using tl by (simp_all only: nth_map)
      from tl(1) have "t < length (map Fin ?col)" by simp
      from pct_change_col_nth [OF NaN_notin_map_Fin this] tl(3)
      have "?rs ! i ! t = fsub (fdiv (map Fin ?col ! t) (map Fin ?col ! (t - 1))) (Fin 1)"
        by (simp only: r if_False)
      with nz show ?thesis by (simp only: m) (simp add: fsub_def)
    qed
    from l z e show ?thesis by blast
  qed
  have "buildReturns (map (map Fin) prices) = Inr ?rs"
    by (simp add: buildReturns_def)
  with len row show ?thesis by blast
qed

theorem buildReturns_keeps_first_row_witness:
  "(2::nat) \<le> 3 \<and>
   (\<exists>rs. buildReturns (map (map Fin) [[100, 110, 99]]) = Inr rs \<and>
      length rs = 1 \<and> length (rs ! 0) = 3 \<and> rs ! 0 ! 0 = NaN \<and>
      rs ! 0 ! 1 = Fin (1 / 10) \<and> rs ! 0 ! 2 = Fin (- (1 / 10)))"
proof -
  have h1: "\<forall>col \<in> set [[100, 110, 99::real]]. length col = 3 \<and> (\<forall>p \<in> set col. 0 < p)"
    by simp
  have h2: "(2::nat) \<le> 3"
    by simp
  from buildReturns_keeps_first_row [OF h1 h2] obtain rs where
    a: "buildReturns (map (map Fin) [[100, 110, 99]]) = Inr rs" and
    b: "length rs = length [[100, 110, 99::real]]" and
    c: "\<forall>i. i < length [[100, 110, 99::real]] \<longrightarrow>
          length (rs ! i) = 3 \<and> rs ! i ! 0 = NaN \<and>
          (\<forall>t. 1 \<le> t \<and> t < 3 \<longrightarrow>
             rs ! i ! t = Fin ([[100, 110, 99]] ! i ! t / [[100, 110, 99]] ! i ! (t - 1) - 1))"
    by blast
  from c have d: "length (rs ! 0) = 3 \<and> rs ! 0 ! 0 = NaN \<and>
          (\<forall>t. 1 \<le> t \<and> t < 3 \<longrightarrow>
             rs ! 0 ! t = Fin ([[100, 110, 99]] ! 0 ! t / [[100, 110, 99]] ! 0 ! (t - 1) - 1))"
    by simp
  then have "rs ! 0 ! 1 = Fin ([[100, 110, 99]] ! 0 ! 1 / [[100, 110, 99]] ! 0 ! (1 - 1) - 1)"
    and "rs ! 0 ! 2 = Fin ([[100, 110, 99]] ! 0 ! 2 / [[100, 110, 99]] ! 0 ! (2 - 1) - 1)"
    by simp_all
  then have "rs ! 0 ! 1 = Fin (1 / 10)" and "rs ! 0 ! 2 = Fin (- (1 / 10))"
    by simp_all
  with a b d h2 show ?thesis by simp
qed

text \<open>
  Claim C8, as stated, fails: a sequence of one price gives a result (one undefined
  entry) and no \<open>InsufficientDataError\<close>; a zero or an infinite price gives a result
  (with an infinite return) and no \<open>InvalidPriceError\<close>.
\<close>

theorem buildReturns_unchecked_counterexample:
  "length [Fin 5] < 2 \<and>
   buildReturns [[Fin 5]] = Inr [[NaN]] \<and>
   buildReturns [[Fin 5]] \<noteq> Inl InsufficientDataError \<and>
   \<not> (0::real) < 0 \<and>
   buildReturns [[Fin 3, Fin 0, Fin 2]] = Inr [[NaN, Fin (- 1), PInf]] \<and>
   buildReturns [[Fin 3, Fin 0, Fin 2]] \<noteq> Inl InvalidPriceError \<and>
   buildReturns [[Fin 3, PInf, Fin 2]] = Inr [[NaN, PInf, Fin (- 1)]] \<and>
   buildReturns [[Fin 3, PInf, Fin 2]] \<noteq> Inl InvalidPriceError"
  by (simp add: buildReturns_def returns_def pct_change_def pct_change_col_def
      fillna_pad_def shift_def fsub_def)

text \<open>
  Claim C8, amended.  \<open>buildReturns\<close> validates nothing and never fails: for every
  price table, also one with a sequence shorter than \<open>2\<close> or with non-positive or
  non-finite prices, it returns a table with the same number of assets and the same
  length per asset; a sequence of length below \<open>2\<close> yields undefined (\<open>nan\<close>)
  entries only.
\<close>

theorem buildReturns_never_fails:
  "buildReturns prices \<noteq> Inl e \<and>
   (\<exists>rs. buildReturns prices = Inr rs \<and> length rs = length prices \<and>
      (\<forall>i. i < length prices \<longrightarrow>
         length (rs ! i) = length (prices ! i) \<and>
         (length (prices ! i) < 2 \<longrightarrow> rs ! i = replicate (length (prices ! i)) NaN)))"
  by (simp add: buildReturns_def returns_def pct_change_def length_pct_change_col
      pct_change_col_short)

theorem buildReturns_never_fails_witness:
  "buildReturns [[Fin 7], [Fin 0]] \<noteq> Inl InsufficientDataError \<and>
   (\<exists>rs. buildReturns [[Fin 7], [Fin 0]] = Inr rs \<and> length rs = 2 \<and>
      rs ! 0 = [NaN] \<and> rs ! 1 = [NaN])"
proof -
  from buildReturns_never_fails [of "[[Fin 7], [Fin 0]]" InsufficientDataError]
  obtain rs where
    a: "buildReturns [[Fin 7], [Fin 0]] \<noteq> Inl InsufficientDataError" and
    b: "buildReturns [[Fin 7], [Fin 0]] = Inr rs" and
    c: "length rs = length [[Fin 7], [Fin 0]]" and
    d: "\<forall>i. i < length [[Fin 7], [Fin 0]] \<longrightarrow>
         length (rs ! i) = length ([[Fin 7], [Fin 0]] ! i) \<and>
         (length ([[Fin 7], [Fin 0]] ! i) < 2 \<longrightarrow>
            rs ! i = replicate (length ([[Fin 7], [Fin 0]] ! i)) NaN)"
    by blast
  from d have "rs ! 0 = [NaN]" and "rs ! 1 = [NaN]"
    by simp_all
  with a b c show ?thesis by simp
qed

section \<open>The portfolio statistics aggregator\<close>

subsection \<open>Dot products over finite values\<close>









subsection \<open>Means and covariances\<close>

lemma finite_pairs_swap: "finite_pairs ys xs = map prod.swap (finite_pairs xs ys)"
  by (induction xs ys rule: finite_pairs.induct) simp_all

lemma nancov_sym: "nancov xcol ycol = nancov ycol xcol"
proof -
  have "finite_pairs ycol xcol = map prod.swap (finite_pairs xcol ycol)"
    by (rule finite_pairs_swap)
  then show ?thesis
    by (simp add: nancov_def Let_def o_def split_def mult.commute)
qed



lemma sample_mean_sum_list: "sample_mean xs = sum_list xs / real (length xs)"
  by (simp add: sample_mean_def sum_list_nth)

lemma cov_sum_pairs:
  "sum_list (map (\<lambda>(vx, vy). (vx - a) * (vy - b)) ps) =
     (\<Sum>k<length ps. (map fst ps ! k - a) * (map snd ps ! k - b))"
proof -
  have "sum_list (map (\<lambda>(vx, vy). (vx - a) * (vy - b)) ps) =
          (\<Sum>k<length ps. map (\<lambda>(vx, vy). (vx - a) * (vy - b)) ps ! k)"
    using sum_list_nth [of "map (\<lambda>(vx, vy). (vx - a) * (vy - b)) ps"] by simp
  also have "\<dots> = (\<Sum>k<length ps. (map fst ps ! k - a) * (map snd ps ! k - b))"
    by (rule sum.cong) (simp_all add: case_prod_beta)
  finally show ?thesis .
qed

lemma nancov_sample:
  "nancov xcol ycol =
     (let ps = finite_pairs xcol ycol
      in if 2 \<le> length ps then Fin (sample_cov (map fst ps) (map snd ps)) else NaN)"
proof -
  let ?ps = "finite_pairs xcol ycol"
  consider "length ?ps = 0" | "length ?ps = 1" | "2 \<le> length ?ps"
    by arith
  then show ?thesis
  proof cases
    case 1
    then show ?thesis by (simp add: nancov_def)
  next
    case 2
    then show ?thesis by (simp add: nancov_def Let_def)
  next
    case 3
    then have d: "real (length ?ps) - 1 \<noteq> 0" and n: "?ps \<noteq> []"
      by auto
    have "nancov xcol ycol =
        Fin (sum_list (map (\<lambda>(vx, vy). (vx - sample_mean (map fst ?ps)) *
            (vy - sample_mean (map snd ?ps))) ?ps) / (real (length ?ps) - 1))"
      using d n by (simp add: nancov_def Let_def sample_mean_sum_list)
    also have "\<dots> = Fin (sample_cov (map fst ?ps) (map snd ?ps))"
      by (simp only: cov_sum_pairs sample_cov_def length_map)
    finally show ?thesis
      using 3 by (simp add: Let_def)
  qed
qed

lemma finite_pairs_map_Fin:
  "length xs = length ys \<Longrightarrow> finite_pairs (map Fin xs) (map Fin ys) = zip xs ys"
  by (induction xs ys rule: list_induct2) simp_all

lemma nancov_map_Fin:
  assumes "length xs = length ys" and "2 \<le> length xs"
  shows "nancov (NaN # map Fin xs) (NaN # map Fin ys) = Fin (sample_cov xs ys)"
proof -
  have ps: "finite_pairs (map Fin xs) (map Fin ys) = zip xs ys"
    using assms(1) by (rule finite_pairs_map_Fin)
  have "map fst (zip xs ys) = xs" "map snd (zip xs ys) = ys"
    using assms(1) by simp_all
  with assms show ?thesis
    by (simp add: nancov_sample ps)
qed

lemma finite_pairs_diag: "finite_pairs col col = map (\<lambda>v. (v, v)) (finite_values col)"
  by (induction col rule: finite_values.induct) simp_all

lemma sample_cov_diag: "sample_cov xs xs = sample_var xs"
  by (simp add: sample_cov_def sample_var_def power2_eq_square)

lemma nancov_diag:
  "nancov col col =
     (let vs = finite_values col in if 2 \<le> length vs then Fin (sample_var vs) else NaN)"
  by (simp add: nancov_sample finite_pairs_diag o_def sample_cov_diag Let_def)

lemma cov_nth: "i < length rets \<Longrightarrow> j < length rets \<Longrightarrow>
    cov_matrix rets ! i ! j = nancov (rets ! i) (rets ! j)"
  by (simp add: cov_matrix_def cov_def)

















text \<open>
  Claim C9.  For every return table with \<open>N\<close> assets, the covariance matrix computed
  by \<open>aggregate\<close> is an \<open>N \<times> N\<close> matrix; entry \<open>(i, j)\<close> is the sample covariance
  of assets \<open>i\<close> and \<open>j\<close> over their common observations, with the number of
  observations minus one as denominator (the unbiased estimator); the matrix is
  symmetric and its diagonal entry \<open>(i, i)\<close> is the sample variance of the returns of
  asset \<open>i\<close>.  Fewer than two observations give \<open>nan\<close>.
\<close>

theorem cov_matrix_sample_covariance:
  "length (cov_matrix rets) = length rets \<and>
   (\<forall>i j. i < length rets \<and> j < length rets \<longrightarrow>
      length (cov_matrix rets ! i) = length rets \<and>
      cov_matrix rets ! i ! j = cov_matrix rets ! j ! i \<and>
      cov_matrix rets ! i ! j =
        (let ps = finite_pairs (rets ! i) (rets ! j)
         in if 2 \<le> length ps then Fin (sample_cov (map fst ps) (map snd ps)) else NaN) \<and>
      (\<forall>xs ys. rets ! i = NaN # map Fin xs \<and> rets ! j = NaN # map Fin ys \<and>
          length xs = length ys \<and> 2 \<le> length xs \<longrightarrow>
          cov_matrix rets ! i ! j = Fin (sample_cov xs ys)) \<and>
      cov_matrix rets ! i ! i =
        (let vs = finite_values (rets ! i)
         in if 2 \<le> length vs then Fin (sample_var vs) else NaN))"
proof -
  have len: "length (cov_matrix rets) = length rets"
    by (simp add: cov_matrix_def cov_def)
  have entry: "length (cov_matrix rets ! i) = length rets \<and>
      cov_matrix rets ! i ! j = cov_matrix rets ! j ! i \<and>
      cov_matrix rets ! i ! j =
        (let ps = finite_pairs (rets ! i) (rets ! j)
         in if 2 \<le> length ps then Fin (sample_cov (map fst ps) (map snd ps)) else NaN) \<and>
      (\<forall>xs ys. rets ! i = NaN # map Fin xs \<and> rets ! j = NaN # map Fin ys \<and>
          length xs = length ys \<and> 2 \<le> length xs \<longrightarrow>
          cov_matrix rets ! i ! j = Fin (sample_cov xs ys)) \<and>
      cov_matrix rets ! i ! i =
        (let vs = finite_values (rets ! i)
         in if 2 \<le> length vs then Fin (sample_var vs) else NaN)"
    if ij: "i < length rets \<and> j < length rets" for i j
  proof -
    from ij have i: "i < length rets" and j: "j < length rets"
      by simp_all
    have a: "length (cov_matrix rets ! i) = length rets"
      using i by (simp add: cov_matrix_def cov_def)
    have b: "cov_matrix rets ! i ! j = cov_matrix rets ! j ! i"
      by (simp only: cov_nth [OF i j] cov_nth [OF j i]) (rule nancov_sym)
    have c: "cov_matrix rets ! i ! j =
        (let ps = finite_pairs (rets ! i) (rets ! j)
         in if 2 \<le> length ps then Fin (sample_cov (map fst ps) (map snd ps)) else NaN)"
      by (simp only: cov_nth [OF i j]) (rule nancov_sample)
    have d: "cov_matrix rets ! i ! j = Fin (sample_cov xs ys)"
      if "rets ! i = NaN # map Fin xs \<and> rets ! j = NaN # map Fin ys \<and>
          length xs = length ys \<and> 2 \<le> length xs" for xs ys
      using that by (simp add: cov_nth [OF i j] nancov_map_Fin)
    have e: "cov_matrix rets ! i ! i =
        (let vs = finite_values (rets ! i)
         in if 2 \<le> length vs then Fin (sample_var vs) else NaN)"
      by (simp only: cov_nth [OF i i]) (rule nancov_diag)
    from a b c d e show ?thesis by blast
  qed
  from len entry show ?thesis by blast
qed

theorem cov_matrix_sample_covariance_witness:
  "length (cov_matrix [[NaN, Fin (1 / 10), Fin (- (1 / 10)), Fin (3 / 10)],
                       [NaN, Fin 0, Fin (1 / 5), Fin (1 / 10)]]) = 2 \<and>
   cov_matrix [[NaN, Fin (1 / 10), Fin (- (1 / 10)), Fin (3 / 10)],
               [NaN, Fin 0, Fin (1 / 5), Fin (1 / 10)]] ! 0 ! 1 =
   cov_matrix [[NaN, Fin (1 / 10), Fin (- (1 / 10)), Fin (3 / 10)],
               [NaN, Fin 0, Fin (1 / 5), Fin (1 / 10)]] ! 1 ! 0 \<and>
   cov_matrix [[NaN, Fin (1 / 10), Fin (- (1 / 10)), Fin (3 / 10)],
               [NaN, Fin 0, Fin (1 / 5), Fin (1 / 10)]] ! 0 ! 1 =
     Fin (sample_cov [1 / 10, - (1 / 10), 3 / 10] [0, 1 / 5, 1 / 10]) \<and>
   sample_cov [1 / 10, - (1 / 10), 3 / 10] [0, 1 / 5, 1 / 10] = - (1 / 100) \<and>
   cov_matrix [[NaN, Fin (1 / 10), Fin (- (1 / 10)), Fin (3 / 10)],
               [NaN, Fin 0, Fin (1 / 5), Fin (1 / 10)]] ! 0 ! 0 =
     Fin (sample_var [1 / 10, - (1 / 10), 3 / 10]) \<and>
   sample_var [1 / 10, - (1 / 10), 3 / 10] = 1 / 25"
proof -
  let ?R = "[[NaN, Fin (1 / 10), Fin (- (1 / 10)), Fin (3 / 10)],
             [NaN, Fin 0, Fin (1 / 5), Fin (1 / 10)]]"
  have h: "0 < length ?R \<and> 1 < length ?R"
    by simp
  note t = cov_matrix_sample_covariance [of ?R]
  from t have l: "length (cov_matrix ?R) = 2"
    by simp
  note e = t [THEN conjunct2, rule_format, OF h]
  from e have s: "cov_matrix ?R ! 0 ! 1 = cov_matrix ?R ! 1 ! 0"
    by blast
  from e have "\<forall>xs ys. ?R ! 0 = NaN # map Fin xs \<and> ?R ! 1 = NaN # map Fin ys \<and>
          length xs = length ys \<and> 2 \<le> length xs \<longrightarrow>
          cov_matrix ?R ! 0 ! 1 = Fin (sample_cov xs ys)"
    by blast
  from this [rule_format, of "[1 / 10, - (1 / 10), 3 / 10]" "[0, 1 / 5, 1 / 10]"]
  have c: "cov_matrix ?R ! 0 ! 1 = Fin (sample_cov [1 / 10, - (1 / 10), 3 / 10] [0, 1 / 5, 1 / 10])"
    by simp
  from e have "cov_matrix ?R ! 0 ! 0 =
      (let vs = finite_values (?R ! 0) in if 2 \<le> length vs then Fin (sample_var vs) else NaN)"
    by blast
  then have v: "cov_matrix ?R ! 0 ! 0 = Fin (sample_var [1 / 10, - (1 / 10), 3 / 10])"
    by simp
  have n1: "sample_cov [1 / 10, - (1 / 10), 3 / 10] [0, 1 / 5, 1 / 10] = - (1 / 100)"
    by (simp add: sample_cov_def sample_mean_def lessThan_Suc)
  have n2: "sample_var [1 / 10, - (1 / 10), 3 / 10] = 1 / 25"
    by (simp add: sample_var_def sample_mean_def lessThan_Suc power2_eq_square)
  from l s c v n1 n2 show ?thesis by blast
qed

subsection \<open>A negative quadratic form\<close>

text \<open>
  Two assets, the second one with no price before the fifth row: each entry of the
  covariance matrix is taken over the rows where both of its columns have a return, and
  the quadratic form of the weights \<open>(2, -1)\<close> is negative, in exact arithmetic already.
\<close>

lemma gap_returns:
  "returns [[Fin 10, Fin 10, Fin 10, Fin 10, Fin 10, Fin 9, Fin (99 / 10)],
            [NaN, NaN, NaN, NaN, Fin 20, Fin 19, Fin (399 / 20)]] =
     [[NaN, Fin 0, Fin 0, Fin 0, Fin 0, Fin (- (1 / 10)), Fin (1 / 10)],
      [NaN, NaN, NaN, NaN, NaN, Fin (- (1 / 20)), Fin (1 / 20)]]"
  by (simp add: returns_def pct_change_def pct_change_col_def fillna_pad_def shift_def fsub_def)

lemma gap_cov:
  "cov_matrix [[NaN, Fin 0, Fin 0, Fin 0, Fin 0, Fin (- (1 / 10)), Fin (1 / 10)],
               [NaN, NaN, NaN, NaN, NaN, Fin (- (1 / 20)), Fin (1 / 20)]] =
     [[Fin (1 / 250), Fin (1 / 100)], [Fin (1 / 100), Fin (1 / 200)]]"
  by (simp add: cov_matrix_def cov_def nancov_def)

lemma gap_mean:
  "mean_returns [[NaN, Fin 0, Fin 0, Fin 0, Fin 0, Fin (- (1 / 10)), Fin (1 / 10)],
               [NaN, NaN, NaN, NaN, NaN, Fin (- (1 / 20)), Fin (1 / 20)]] =
     [Fin 0, Fin 0]"
  by (simp add: mean_returns_def nanmean_def)

lemma gap_quad: "quad_form (\<lambda>x. x) [Fin 2, Fin (- 1)]
     [[Fin (1 / 250), Fin (1 / 100)], [Fin (1 / 100), Fin (1 / 200)]] = Inr (Fin (- (19 / 1000)))"
  by (simp add: quad_form_def vecmat_def ncols_def dot_def)

text \<open>
  Claim C6, as stated, fails: the quadratic form is \<open>-19/1000\<close>, the code takes its
  square root as it is and returns \<open>nan\<close> as the portfolio standard deviation, not
  \<open>0\<close>.
\<close>

theorem aggregate_clamp_counterexample:
  "returns [[Fin 10, Fin 10, Fin 10, Fin 10, Fin 10, Fin 9, Fin (99 / 10)],
            [NaN, NaN, NaN, NaN, Fin 20, Fin 19, Fin (399 / 20)]] =
     [[NaN, Fin 0, Fin 0, Fin 0, Fin 0, Fin (- (1 / 10)), Fin (1 / 10)],
      [NaN, NaN, NaN, NaN, NaN, Fin (- (1 / 20)), Fin (1 / 20)]] \<and>
   quad_form (\<lambda>x. x) [Fin 2, Fin (- 1)]
     (cov_matrix [[NaN, Fin 0, Fin 0, Fin 0, Fin 0, Fin (- (1 / 10)), Fin (1 / 10)],
                  [NaN, NaN, NaN, NaN, NaN, Fin (- (1 / 20)), Fin (1 / 20)]]) =
     Inr (Fin (- (19 / 1000))) \<and>
   aggregate (\<lambda>x. x)
     [[NaN, Fin 0, Fin 0, Fin 0, Fin 0, Fin (- (1 / 10)), Fin (1 / 10)],
      [NaN, NaN, NaN, NaN, NaN, Fin (- (1 / 20)), Fin (1 / 20)]] [Fin 2, Fin (- 1)] =
     Inr (Fin 0, NaN) \<and>
   aggregate (\<lambda>x. x)
     [[NaN, Fin 0, Fin 0, Fin 0, Fin 0, Fin (- (1 / 10)), Fin (1 / 10)],
      [NaN, NaN, NaN, NaN, NaN, Fin (- (1 / 20)), Fin (1 / 20)]] [Fin 2, Fin (- 1)] \<noteq>
     Inr (Fin 0, Fin 0)"
  by (simp add: gap_returns aggregate_def gap_cov gap_mean gap_quad port_stdev_def
      port_mean_def dot_def)

lemma quad_form_Inr_length:
  "quad_form rnd weights m = Inr q \<Longrightarrow> length weights = length m"
  by (auto simp add: quad_form_def vecmat_def split: if_splits sum.splits)

text \<open>
  Claim C6, amended.  For every weights vector and covariance matrix, if the quadratic
  form \<open>weights . \<Sigma> . weights\<close> evaluates to a negative value, \<open>aggregate\<close> does not
  clamp it: \<open>np.sqrt\<close> receives the negative argument and the portfolio standard
  deviation returned is \<open>nan\<close>; no error is raised.
\<close>

theorem port_stdev_negative_unclamped:
  assumes "quad_form rnd weights (cov_matrix rets) = Inr (Fin q)" and "q < 0"
  shows "port_stdev rnd weights (cov_matrix rets) = Inr NaN \<and>
         (\<exists>pm. aggregate rnd rets weights = Inr (pm, NaN))"
proof -
  have sd: "port_stdev rnd weights (cov_matrix rets) = Inr NaN"
    using assms by (simp add: port_stdev_def)
  have "length weights = length (cov_matrix rets)"
    using assms(1) by (rule quad_form_Inr_length)
  then have "length (mean_returns rets) = length weights"
    by (simp add: mean_returns_def cov_matrix_def cov_def)
  then have "port_mean rnd (mean_returns rets) weights =
      Inr (fround rnd (fsum (map2 fmul (mean_returns rets) weights)))"
    by (simp add: port_mean_def dot_def)
  with sd have "aggregate rnd rets weights =
      Inr (fround rnd (fsum (map2 fmul (mean_returns rets) weights)), NaN)"
    by (simp add: aggregate_def)
  with sd show ?thesis by blast
qed

lemma pairwise_quad:
  "quad_form (\<lambda>x. x) [Fin 1, Fin (- 1)]
     (cov_matrix [[NaN, Fin 0, Fin 0, Fin 0, Fin (- 1), Fin 1],
                  [NaN, NaN, NaN, NaN, Fin (- (1 / 2)), Fin (1 / 2)]]) = Inr (Fin (- 1))"
  by (simp add: cov_matrix_def cov_def nancov_def quad_form_def vecmat_def ncols_def dot_def)

theorem port_stdev_negative_unclamped_witness:
  "(- 1 :: real) < 0 \<and>
   port_stdev (\<lambda>x. x) [Fin 1, Fin (- 1)]
     (cov_matrix [[NaN, Fin 0, Fin 0, Fin 0, Fin (- 1), Fin 1],
                  [NaN, NaN, NaN, NaN, Fin (- (1 / 2)), Fin (1 / 2)]]) = Inr NaN \<and>
   (\<exists>pm. aggregate (\<lambda>x. x) [[NaN, Fin 0, Fin 0, Fin 0, Fin (- 1), Fin 1],
                     [NaN, NaN, NaN, NaN, Fin (- (1 / 2)), Fin (1 / 2)]] [Fin 1, Fin (- 1)] =
           Inr (pm, NaN))"
proof -
  have h: "(- 1 :: real) < 0"
    by simp
  from port_stdev_negative_unclamped [OF pairwise_quad h] h show ?thesis
    by simp
qed

subsection \<open>The undefined first row\<close>









section \<open>The VaR estimator\<close>

lemma estimateVaR_unfold:
  "estimateVaR (pm, ps) iv c =
     Inr (fsub iv (norm_ppf c (fmul (fadd (Fin 1) pm) iv) (fmul iv ps)))"
  by (simp add: estimateVaR_def mean_investment_def investment_stdev_def
      percent_point_def value_at_risk_def)

text \<open>
  Claim C1, as stated, fails where the standard deviation is zero: the claim promises
  the investment minus the quantile (which the specification reads as the mean there),
  the code returns \<open>nan\<close>.
\<close>

theorem estimateVaR_quantile_counterexample:
  "estimateVaR (Fin (1 / 100), Fin 0) (Fin 1000) (Fin (1 / 20)) = Inr NaN \<and>
   estimateVaR (Fin (1 / 100), Fin 0) (Fin 1000) (Fin (1 / 20)) \<noteq>
     Inr (Fin (1000 - normal_quantile (1 / 20) ((1 + 1 / 100) * 1000) (0 * 1000)))"
  by (simp add: estimateVaR_unfold norm_ppf_def fsub_def)

text \<open>
  Claim C1, amended.  For every portfolio statistics pair with mean \<open>m\<close> and standard
  deviation \<open>s > 0\<close>, every investment \<open>I > 0\<close> and every confidence level \<open>c\<close> in
  \<open>(0, 1)\<close>, \<open>estimateVaR\<close> returns \<open>I\<close> minus the \<open>c\<close>-quantile of the Normal
  distribution with mean \<open>(1 + m) * I\<close> and standard deviation \<open>s * I\<close>.
\<close>

theorem estimateVaR_quantile:
  assumes "0 < s" and "0 < I" and "0 < c" and "c < 1"
  shows "estimateVaR (Fin m, Fin s) (Fin I) (Fin c) =
           Inr (Fin (I - normal_quantile c ((1 + m) * I) (s * I)))"
proof -
  have scale: "0 < I * s"
    using assms by simp
  have "norm_ppf (Fin c) (Fin ((1 + m) * I)) (Fin (I * s)) =
          Fin (ndtri c * (I * s) + (1 + m) * I)"
    using scale assms by (simp add: norm_ppf_def)
  then show ?thesis
    by (simp add: estimateVaR_unfold fsub_def normal_quantile_def mult.commute add.commute)
qed

theorem estimateVaR_quantile_witness:
  "(0::real) < 1 / 50 \<and> (0::real) < 1000 \<and> (0::real) < 1 / 20 \<and> (1::real) / 20 < 1 \<and>
   estimateVaR (Fin (1 / 100), Fin (1 / 50)) (Fin 1000) (Fin (1 / 20)) =
     Inr (Fin (1000 - normal_quantile (1 / 20) ((1 + 1 / 100) * 1000) (1 / 50 * 1000)))"
proof -
  have h: "(0::real) < 1 / 50" "(0::real) < 1000" "(0::real) < 1 / 20" "(1::real) / 20 < 1"
    by simp_all
  from estimateVaR_quantile [OF h, of "1 / 100"] h show ?thesis
    by simp
qed

text \<open>
  Claim C5, as stated, fails: with a standard deviation of exactly zero the code does not
  return \<open>initialInvestment - (1 + meanReturn) * initialInvestment\<close> but \<open>nan\<close>.
\<close>

theorem estimateVaR_zero_stdev_counterexample:
  "(0::real) * 500 = 0 \<and>
   estimateVaR (Fin (1 / 50), Fin 0) (Fin 500) (Fin (1 / 100)) = Inr NaN \<and>
   estimateVaR (Fin (1 / 50), Fin 0) (Fin 500) (Fin (1 / 100)) \<noteq>
     Inr (Fin (500 - (1 + 1 / 50) * 500))"
  by (simp add: estimateVaR_unfold norm_ppf_def fsub_def)

text \<open>
  Claim C5, amended.  For every statistics pair whose \<open>stdValue = stdDev *
  initialInvestment\<close> is exactly zero, and every confidence level, \<open>estimateVaR\<close>
  passes the zero on to \<open>norm.ppf\<close> (there is no separate case), whose check
  \<open>scale > 0\<close> then fails: the quantile, and with it the VaR, is \<open>nan\<close>.
\<close>

theorem estimateVaR_zero_stdev:
  assumes "s * I = 0"
  shows "percent_point c (mean_investment (Fin m) (Fin I)) (investment_stdev (Fin I) (Fin s)) = NaN \<and>
         estimateVaR (Fin m, Fin s) (Fin I) c = Inr NaN"
proof -
  have "investment_stdev (Fin I) (Fin s) = Fin 0"
    using assms by (simp add: investment_stdev_def mult.commute)
  then have pp: "percent_point c (mean_investment (Fin m) (Fin I))
      (investment_stdev (Fin I) (Fin s)) = NaN"
    by (simp add: percent_point_def norm_ppf_def)
  then show ?thesis
    by (simp add: estimateVaR_def value_at_risk_def fsub_def)
qed

theorem estimateVaR_zero_stdev_witness:
  "(0::real) * 1000 = 0 \<and>
   estimateVaR (Fin (3 / 1000), Fin 0) (Fin 1000) (Fin (1 / 20)) = Inr NaN"
proof -
  have h: "(0::real) * 1000 = 0" by simp
  from estimateVaR_zero_stdev [OF h, of "Fin (1 / 20)" "3 / 1000"] h show ?thesis
    by simp
qed

text \<open>
  Claim C7, as stated, fails: with a confidence level of exactly \<open>0\<close> the code raises
  nothing; the quantile is \<open>-inf\<close> and the VaR returned is \<open>+inf\<close>.
\<close>

theorem estimateVaR_confidence_counterexample:
  "\<not> (0 < (0::real) \<and> (0::real) < 1) \<and>
   percent_point (Fin 0) (mean_investment (Fin (1 / 100)) (Fin 1000))
     (investment_stdev (Fin 1000) (Fin (1 / 50))) = NInf \<and>
   estimateVaR (Fin (1 / 100), Fin (1 / 50)) (Fin 1000) (Fin 0) = Inr PInf \<and>
   estimateVaR (Fin (1 / 100), Fin (1 / 50)) (Fin 1000) (Fin 0) \<noteq> Inl InvalidParameterError"
  by (simp add: estimateVaR_unfold norm_ppf_def percent_point_def mean_investment_def
      investment_stdev_def fsub_def)

text \<open>
  Claim C7, amended.  \<open>estimateVaR\<close> does not validate the confidence level and never
  fails.  For finite statistics and investment with \<open>stdValue > 0\<close>: a confidence level
  of exactly \<open>0\<close> returns \<open>+inf\<close> (the quantile is \<open>-inf\<close>), exactly \<open>1\<close> returns
  \<open>-inf\<close> (the quantile is \<open>+inf\<close>), and a confidence level below \<open>0\<close> or above
  \<open>1\<close> returns \<open>nan\<close>.
\<close>

theorem estimateVaR_confidence_unchecked:
  assumes "0 < s * I"
  shows "estimateVaR (Fin m, Fin s) (Fin I) (Fin 0) = Inr PInf \<and>
         estimateVaR (Fin m, Fin s) (Fin I) (Fin 1) = Inr NInf \<and>
         (c < 0 \<or> 1 < c \<longrightarrow> estimateVaR (Fin m, Fin s) (Fin I) (Fin c) = Inr NaN) \<and>
         estimateVaR stats iv conf \<noteq> Inl e"
proof -
  have scale: "0 < I * s"
    using assms by (simp add: mult.commute)
  have nz: "I \<noteq> 0" "s \<noteq> 0"
    using assms by auto
  have zero: "estimateVaR (Fin m, Fin s) (Fin I) (Fin 0) = Inr PInf"
    using scale nz by (simp add: estimateVaR_unfold norm_ppf_def fsub_def)
  have one: "estimateVaR (Fin m, Fin s) (Fin I) (Fin 1) = Inr NInf"
    using scale nz by (simp add: estimateVaR_unfold norm_ppf_def fsub_def)
  have out: "estimateVaR (Fin m, Fin s) (Fin I) (Fin c) = Inr NaN" if "c < 0 \<or> 1 < c"
    using that scale by (auto simp add: estimateVaR_unfold norm_ppf_def fsub_def)
  have total: "estimateVaR stats iv conf \<noteq> Inl e"
    by (simp add: estimateVaR_def Let_def)
  from zero one out total show ?thesis by blast
qed

theorem estimateVaR_confidence_unchecked_witness:
  "(0::real) < 1 / 50 * 1000 \<and>
   estimateVaR (Fin (1 / 100), Fin (1 / 50)) (Fin 1000) (Fin 0) = Inr PInf \<and>
   estimateVaR (Fin (1 / 100), Fin (1 / 50)) (Fin 1000) (Fin 1) = Inr NInf \<and>
   estimateVaR (Fin (1 / 100), Fin (1 / 50)) (Fin 1000) (Fin 2) = Inr NaN \<and>
   estimateVaR (Fin (1 / 100), Fin (1 / 50)) (Fin 1000) (Fin (- 1)) = Inr NaN"
proof -
  have h: "(0::real) < 1 / 50 * 1000" by simp
  have a: "estimateVaR (Fin (1 / 100), Fin (1 / 50)) (Fin 1000) (Fin 0) = Inr PInf"
    and b: "estimateVaR (Fin (1 / 100), Fin (1 / 50)) (Fin 1000) (Fin 1) = Inr NInf"
    and c: "estimateVaR (Fin (1 / 100), Fin (1 / 50)) (Fin 1000) (Fin 2) = Inr NaN"
    using estimateVaR_confidence_unchecked [OF h, of "1 / 100" 2] by simp_all
  have d: "estimateVaR (Fin (1 / 100), Fin (1 / 50)) (Fin 1000) (Fin (- 1)) = Inr NaN"
    using estimateVaR_confidence_unchecked [OF h, of "1 / 100" "- 1"] by simp
  from h a b c d show ?thesis by simp
qed

section \<open>The horizon scaler\<close>

lemma length_upto_one: "length [1..n] = nat n"
  by simp

lemma nth_upto_one: "k < nat n \<Longrightarrow> [1..n] ! k = 1 + int k"
  by (simp add: nth_upto)

text \<open>
  Claim C4.  For every real \<open>v\<close> and every integer \<open>n \<ge> 1\<close>, \<open>scaleToHorizon v n\<close>
  is a sequence of exactly \<open>n\<close> values, and its element at index \<open>k\<close> is
  \<open>v * sqrt (k + 1)\<close> for every \<open>k\<close> in \<open>[0, n)\<close>.
\<close>

theorem scaleToHorizon_curve:
  assumes "1 \<le> n"
  shows "length (scaleToHorizon (Fin v) n) = nat n \<and>
         (\<forall>k. k < nat n \<longrightarrow> scaleToHorizon (Fin v) n ! k = Fin (v * sqrt (real k + 1)))"
proof -
  have len: "length (scaleToHorizon (Fin v) n) = nat n"
    by (simp add: scaleToHorizon_def)
  have elt: "scaleToHorizon (Fin v) n ! k = Fin (v * sqrt (real k + 1))" if "k < nat n" for k
  proof -
    have "scaleToHorizon (Fin v) n ! k = fmul (Fin v) (fsqrt (Fin (of_int ([1..n] ! k))))"
      using that by (simp add: scaleToHorizon_def)
    also have "[1..n] ! k = 1 + int k"
      using that by (rule nth_upto_one)
    also have "fmul (Fin v) (fsqrt (Fin (of_int (1 + int k)))) = Fin (v * sqrt (real k + 1))"
      by (simp add: add.commute)
    finally show ?thesis .
  qed
  from len elt show ?thesis by blast
qed

theorem scaleToHorizon_curve_witness:
  "(1::int) \<le> 3 \<and> length (scaleToHorizon (Fin 2) 3) = 3 \<and>
   scaleToHorizon (Fin 2) 3 ! 0 = Fin 2 \<and>
   scaleToHorizon (Fin 2) 3 ! 1 = Fin (2 * sqrt 2) \<and>
   scaleToHorizon (Fin 2) 3 ! 2 = Fin (2 * sqrt 3) \<and>
   length (value_at_risks (Fin 2)) = 30 \<and>
   value_at_risks (Fin 2) ! 29 = Fin (2 * sqrt 30)"
proof -
  have h: "(1::int) \<le> 3" by simp
  have c: "length (scaleToHorizon (Fin 2) 3) = nat 3 \<and>
         (\<forall>k. k < nat 3 \<longrightarrow> scaleToHorizon (Fin 2) 3 ! k = Fin (2 * sqrt (real k + 1)))"
    using scaleToHorizon_curve [OF h, of 2] .
  then have "scaleToHorizon (Fin 2) 3 ! 0 = Fin (2 * sqrt (real 0 + 1))"
    and "scaleToHorizon (Fin 2) 3 ! 1 = Fin (2 * sqrt (real 1 + 1))"
    and "scaleToHorizon (Fin 2) 3 ! 2 = Fin (2 * sqrt (real 2 + 1))"
    by simp_all
  with c h have small: "(1::int) \<le> 3 \<and> length (scaleToHorizon (Fin 2) 3) = 3 \<and>
      scaleToHorizon (Fin 2) 3 ! 0 = Fin 2 \<and>
      scaleToHorizon (Fin 2) 3 ! 1 = Fin (2 * sqrt 2) \<and>
      scaleToHorizon (Fin 2) 3 ! 2 = Fin (2 * sqrt 3)"
    by simp
  have h30: "(1::int) \<le> 30" by simp
  have c30: "length (scaleToHorizon (Fin 2) 30) = nat 30 \<and>
         (\<forall>k. k < nat 30 \<longrightarrow> scaleToHorizon (Fin 2) 30 ! k = Fin (2 * sqrt (real k + 1)))"
    using scaleToHorizon_curve [OF h30, of 2] .
  then have "scaleToHorizon (Fin 2) 30 ! 29 = Fin (2 * sqrt (real 29 + 1))"
    by simp
  with c30 have "length (value_at_risks (Fin 2)) = 30 \<and>
      value_at_risks (Fin 2) ! 29 = Fin (2 * sqrt 30)"
    by (simp add: value_at_risks_def)
  with small show ?thesis by simp
qed

end
